theory Spec2Isabelle
  imports Complex_Main "HOL-Library.Multiset"
begin

section \<open>Errors and the numpy primitives the optimizer uses\<close>

text \<open>
  The exceptions the two source files can raise: the two \<^verbatim>\<open>ValueError\<close>s of
  \<^verbatim>\<open>apply_knowledge_augmentation\<close> (with their messages), a missing dictionary key, an
  out-of-range array index and a division by zero.
\<close>

datatype error = ValueError string | KeyError string | IndexError | ZeroDivisionError

text \<open>A one-dimensional \<^verbatim>\<open>np.ndarray\<close> of floats, read as a list of reals.\<close>

type_synonym ndarray = "real list"

text \<open>\<^verbatim>\<open>np.append(arr, v)\<close> returns a new array with \<open>v\<close> at the end.\<close>

definition np_append :: "ndarray \<Rightarrow> real \<Rightarrow> ndarray" where
  "np_append arr v = arr @ [v]"

text \<open>
  \<^verbatim>\<open>arr[order]\<close> with an integer index array: the elements of \<open>arr\<close> at the positions
  \<open>order\<close> lists; an index beyond the end raises \<^verbatim>\<open>IndexError\<close>. (The indices come from
  \<^verbatim>\<open>np.argsort\<close> and are never negative.)
\<close>

definition take_idx :: "ndarray \<Rightarrow> nat list \<Rightarrow> error + ndarray" where
  "take_idx arr order =
     (if list_all (\<lambda>i. i < length arr) order then Inr (map (\<lambda>i. arr ! i) order)
      else Inl IndexError)"

text \<open>
  The slices \<^verbatim>\<open>arr[:k]\<close> and \<^verbatim>\<open>arr[k:]\<close>. A negative \<open>k\<close> counts from the end and a
  bound outside the array is clamped, so neither slice raises.
\<close>

definition slice_to :: "ndarray \<Rightarrow> int \<Rightarrow> ndarray" where
  "slice_to arr k = (if 0 \<le> k then take (nat k) arr else take (length arr - nat (- k)) arr)"

definition slice_from :: "ndarray \<Rightarrow> int \<Rightarrow> ndarray" where
  "slice_from arr k = (if 0 \<le> k then drop (nat k) arr else drop (length arr - nat (- k)) arr)"

text \<open>
  \<^verbatim>\<open>np.argsort\<close> is library code. \<^verbatim>\<open>_calculate_order\<close> calls it with no \<^verbatim>\<open>kind\<close>
  argument, that is with numpy's default \<^verbatim>\<open>kind='quicksort'\<close>, whose contract is: the
  result lists every index of the array once, and reading the array in that order gives
  ascending values. The model takes \<^verbatim>\<open>np.argsort\<close> as a parameter \<open>argsort\<close>;
  \<open>is_argsort arr order\<close> says that \<open>order\<close> meets that contract on \<open>arr\<close>.
\<close>

definition is_argsort :: "ndarray \<Rightarrow> nat list \<Rightarrow> bool" where
  "is_argsort arr order =
     (sort order = [0..<length arr] \<and> sorted (map (\<lambda>i. arr ! i) order))"

text \<open>
  An \<open>argsort\<close> that meets the contract and keeps equal values in insertion order, as
  \<^verbatim>\<open>np.argsort\<close> does on the short arrays of the examples below.
\<close>

definition argsort_stable :: "ndarray \<Rightarrow> nat list" where
  "argsort_stable arr = sort_key (\<lambda>i. arr ! i) [0..<length arr]"

section \<open>The search space and the density-model collaborator\<close>

text \<open>
  A hyperparameter of the \<^verbatim>\<open>ConfigSpace\<close> library: the code reads its class name and
  hands the object itself to the density-model builders; \<open>'d\<close> is whatever else it holds
  (bounds, choices).
\<close>

datatype 'd hyperparameter = Hyperparameter (class_name: string) (domain: 'd)

text \<open>
  \<^verbatim>\<open>config_space._hyperparameters\<close> is a dictionary from names to hyperparameters, kept
  here in its iteration order. \<^verbatim>\<open>get_hyperparameter\<close> looks a name up.
\<close>

type_synonym 'd configuration_space = "(string \<times> 'd hyperparameter) list"

definition get_hyperparameter :: "'d configuration_space \<Rightarrow> string \<Rightarrow> error + 'd hyperparameter" where
  "get_hyperparameter config_space hp_name =
     (case map_of config_space hp_name of
        None \<Rightarrow> Inl (KeyError hp_name)
      | Some config \<Rightarrow> Inr config)"

text \<open>
  The package \<^verbatim>\<open>parzen_estimator\<close> is an external collaborator. A density model is
  represented by the builder call that makes it, with the arguments of the call:
  \<^verbatim>\<open>build_categorical_parzen_estimator(vals, config, top)\<close> and
  \<^verbatim>\<open>build_numerical_parzen_estimator(vals, config, dtype, is_ordinal,
  default_min_bandwidth_factor)\<close>. \<open>'t\<close> is the type of the entries of the table
  \<^verbatim>\<open>config2type\<close>.
\<close>

datatype ('d, 't) parzen_estimator =
    build_categorical_parzen_estimator ndarray "'d hyperparameter" real
  | build_numerical_parzen_estimator ndarray "'d hyperparameter" 't bool real

datatype ('d, 't) multivariate_parzen_estimator =
  MultiVariateParzenEstimator "string \<rightharpoonup> ('d, 't) parzen_estimator"

section \<open>The optimizer instance\<close>

text \<open>
  The attributes of a \<^verbatim>\<open>TPE\<close> instance that the observation bookkeeping reads or writes.
  \<open>observations\<close> and \<open>sorted_observations\<close> are the two dictionaries from column names
  to arrays; dimension columns, objective columns and the runtime column share one
  dictionary each, as in the source. \<open>mvpe_lower\<close>, \<open>mvpe_upper\<close> and \<open>order_idx\<close>
  (\<^verbatim>\<open>self._order\<close>) are only declared by the constructor, hence optional.
\<close>

record ('d, 't) tpe =
  config_space :: "'d configuration_space"
  hp_names :: "string list"
  objective_names :: "string list"
  runtime_name :: string
  n_lower :: int
  percentile :: real
  min_bandwidth_factor :: real
  top_prob :: real
  observations :: "string \<rightharpoonup> ndarray"
  sorted_observations :: "string \<rightharpoonup> ndarray"
  is_categoricals :: "string \<rightharpoonup> bool"
  is_ordinals :: "string \<rightharpoonup> bool"
  mvpe_lower :: "('d, 't) multivariate_parzen_estimator option"
  mvpe_upper :: "('d, 't) multivariate_parzen_estimator option"
  order_idx :: "nat list option"
  objective_name :: string
  quantile :: real

text \<open>\<^verbatim>\<open>{name: np.array([]) for name in names}\<close>\<close>

definition empty_columns :: "string list \<Rightarrow> (string \<rightharpoonup> ndarray)" where
  "empty_columns names = map_of (map (\<lambda>name. (name, [])) names)"

text \<open>
  \<^verbatim>\<open>{hp_name: get_hyperparameter(hp_name).__class__.__name__ == cls for hp_name in
  hp_names}\<close>\<close>

definition class_flags :: "'d configuration_space \<Rightarrow> string \<Rightarrow> (string \<rightharpoonup> bool)" where
  "class_flags cs cls = map_of (map (\<lambda>(hp_name, config). (hp_name, class_name config = cls)) cs)"

text \<open>
  \<^verbatim>\<open>TPE.__init__\<close>, which calls \<^verbatim>\<open>BaseTPE.__init__\<close> with
  \<^verbatim>\<open>objective_names=[objective_name]\<close>. The seed of the random generator,
  \<^verbatim>\<open>n_ei_candidates\<close> and \<^verbatim>\<open>minimize\<close> play no part in the bookkeeping and are left out.
\<close>

definition init_TPE ::
  "'d configuration_space \<Rightarrow> string \<Rightarrow> string \<Rightarrow> real \<Rightarrow> real \<Rightarrow> real \<Rightarrow> ('d, 't) tpe" where
  "init_TPE cs objective runtime min_bw top_p q =
     \<lparr> config_space = cs,
       hp_names = map fst cs,
       objective_names = [objective],
       runtime_name = runtime,
       n_lower = 0,
       percentile = 0,
       min_bandwidth_factor = min_bw,
       top_prob = top_p,
       observations = (empty_columns (map fst cs) ++ empty_columns [objective])(runtime \<mapsto> []),
       sorted_observations = (empty_columns (map fst cs) ++ empty_columns [objective])(runtime \<mapsto> []),
       is_categoricals = class_flags cs ''CategoricalHyperparameter'',
       is_ordinals = class_flags cs ''OrdinalHyperparameter'',
       mvpe_lower = None,
       mvpe_upper = None,
       order_idx = None,
       objective_name = objective,
       quantile = q \<rparr>"

section \<open>Order and percentile (\<^verbatim>\<open>tpe.py\<close>)\<close>

text \<open>
  \<^verbatim>\<open>TPE._percentile_func\<close>: \<^verbatim>\<open>int(np.ceil(self._quantile * n_observations))\<close> with the
  size of the objective column.
\<close>

definition percentile_func :: "('d, 't) tpe \<Rightarrow> error + int" where
  "percentile_func s =
     (case observations s (objective_name s) of
        None \<Rightarrow> Inl (KeyError (objective_name s))
      | Some col \<Rightarrow> Inr \<lceil>quantile s * real (length col)\<rceil>)"

text \<open>
  \<^verbatim>\<open>TPE._calculate_order\<close>. \<open>results\<close> is the dictionary \<^verbatim>\<open>results[0]\<close> of the caller
  when one is given. The order is stored in \<^verbatim>\<open>self._order\<close> and returned.
\<close>

definition calculate_order ::
  "(ndarray \<Rightarrow> nat list) \<Rightarrow> ('d, 't) tpe \<Rightarrow> (string \<rightharpoonup> real) option \<Rightarrow> error + (nat list \<times> ('d, 't) tpe)" where
  "calculate_order argsort s results =
     (case observations s (objective_name s) of
        None \<Rightarrow> Inl (KeyError (objective_name s))
      | Some col \<Rightarrow>
          (case results of
             None \<Rightarrow> Inr (argsort col, s\<lparr>order_idx := Some (argsort col)\<rparr>)
           | Some res \<Rightarrow>
               (case res (objective_name s) of
                  None \<Rightarrow> Inl (KeyError (objective_name s))
                | Some v \<Rightarrow>
                    Inr (argsort (np_append col v),
                         s\<lparr>order_idx := Some (argsort (np_append col v))\<rparr>))))"

section \<open>Density-model dispatch (\<^verbatim>\<open>base_tpe.py\<close>)\<close>

text \<open>
  \<^verbatim>\<open>BaseTPE._get_parzen_estimator\<close>. The table \<^verbatim>\<open>config2type\<close> of
  \<^verbatim>\<open>optimizers.tpe.utils.constants\<close> is a parameter: a dictionary from class names to
  types, read only in the numerical branch, where a missing class name raises
  \<^verbatim>\<open>KeyError\<close>.
\<close>

definition get_parzen_estimator ::
  "(string \<rightharpoonup> 't) \<Rightarrow> ('d, 't) tpe \<Rightarrow> ndarray \<Rightarrow> ndarray \<Rightarrow> string \<Rightarrow> bool
     \<Rightarrow> error + (('d, 't) parzen_estimator \<times> ('d, 't) parzen_estimator)" where
  "get_parzen_estimator config2type s lower_vals upper_vals hp_name is_categorical =
     (case get_hyperparameter (config_space s) hp_name of
        Inl e \<Rightarrow> Inl e
      | Inr config \<Rightarrow>
          (case is_ordinals s hp_name of
             None \<Rightarrow> Inl (KeyError hp_name)
           | Some is_ordinal \<Rightarrow>
               if is_categorical then
                 Inr (build_categorical_parzen_estimator lower_vals config (top_prob s),
                      build_categorical_parzen_estimator upper_vals config (top_prob s))
               else
                 (case config2type (class_name config) of
                    None \<Rightarrow> Inl (KeyError (class_name config))
                  | Some dtype \<Rightarrow>
                      Inr (build_numerical_parzen_estimator lower_vals config dtype is_ordinal
                             (min_bandwidth_factor s),
                           build_numerical_parzen_estimator upper_vals config dtype is_ordinal
                             (min_bandwidth_factor s)))))"

text \<open>
  The body of the loop of \<^verbatim>\<open>BaseTPE._update_parzen_estimators\<close> for one dimension:
  read the flag and the sorted column, split the column at \<^verbatim>\<open>n_lower\<close> and build the
  two estimators.
\<close>

definition split_and_build ::
  "(string \<rightharpoonup> 't) \<Rightarrow> ('d, 't) tpe \<Rightarrow> string
     \<Rightarrow> error + (('d, 't) parzen_estimator \<times> ('d, 't) parzen_estimator)" where
  "split_and_build config2type s hp_name =
     (case is_categoricals s hp_name of
        None \<Rightarrow> Inl (KeyError hp_name)
      | Some is_categorical \<Rightarrow>
          (case sorted_observations s hp_name of
             None \<Rightarrow> Inl (KeyError hp_name)
           | Some sorted_obs \<Rightarrow>
               get_parzen_estimator config2type s
                 (slice_to sorted_obs (n_lower s)) (slice_from sorted_obs (n_lower s))
                 hp_name is_categorical))"

text \<open>
  The loop over \<^verbatim>\<open>self._hp_names\<close>, with the two dictionaries \<^verbatim>\<open>pe_lower_dict\<close> and
  \<^verbatim>\<open>pe_upper_dict\<close> it fills.
\<close>

fun parzen_estimators_loop ::
  "(string \<rightharpoonup> 't) \<Rightarrow> ('d, 't) tpe \<Rightarrow> string list
     \<Rightarrow> (string \<rightharpoonup> ('d, 't) parzen_estimator) \<times> (string \<rightharpoonup> ('d, 't) parzen_estimator)
     \<Rightarrow> error + ((string \<rightharpoonup> ('d, 't) parzen_estimator) \<times> (string \<rightharpoonup> ('d, 't) parzen_estimator))" where
  "parzen_estimators_loop config2type s [] dicts = Inr dicts"
| "parzen_estimators_loop config2type s (hp_name # rest) (pe_lower_dict, pe_upper_dict) =
     (case split_and_build config2type s hp_name of
        Inl e \<Rightarrow> Inl e
      | Inr (pe_lower, pe_upper) \<Rightarrow>
          parzen_estimators_loop config2type s rest
            (pe_lower_dict(hp_name \<mapsto> pe_lower), pe_upper_dict(hp_name \<mapsto> pe_upper)))"

text \<open>
  \<^verbatim>\<open>BaseTPE._update_parzen_estimators\<close>. A mutator returns the exception it raised, if
  any, together with the instance as it is when the call ends, so that what was written
  before a raise stays visible.
\<close>

definition update_parzen_estimators ::
  "(string \<rightharpoonup> 't) \<Rightarrow> ('d, 't) tpe \<Rightarrow> error option \<times> ('d, 't) tpe" where
  "update_parzen_estimators config2type s =
     (case parzen_estimators_loop config2type s (hp_names s) (Map.empty, Map.empty) of
        Inl e \<Rightarrow> (Some e, s)
      | Inr (pe_lower_dict, pe_upper_dict) \<Rightarrow>
          (None, s\<lparr>mvpe_lower := Some (MultiVariateParzenEstimator pe_lower_dict),
                   mvpe_upper := Some (MultiVariateParzenEstimator pe_upper_dict)\<rparr>))"

text \<open>
  The lookups the dispatcher makes for a dimension succeed: the search space knows the
  name, both flags and the sorted column are there, and the table of types knows the
  class of a dimension that is not categorical.
\<close>

definition dispatch_ready :: "(string \<rightharpoonup> 't) \<Rightarrow> ('d, 't) tpe \<Rightarrow> string \<Rightarrow> bool" where
  "dispatch_ready config2type s hp_name =
     (case map_of (config_space s) hp_name of
        None \<Rightarrow> False
      | Some config \<Rightarrow>
          (case is_categoricals s hp_name of
             None \<Rightarrow> False
           | Some is_categorical \<Rightarrow>
               is_ordinals s hp_name \<noteq> None \<and> sorted_observations s hp_name \<noteq> None
               \<and> (is_categorical \<or> config2type (class_name config) \<noteq> None)))"

section \<open>The two mutators (\<^verbatim>\<open>base_tpe.py\<close>)\<close>

text \<open>
  The group boundary, as both mutators compute it:
  \<^verbatim>\<open>self._n_lower = self._percentile_func() if percentile_func is None else percentile_func()\<close>
  and then \<^verbatim>\<open>self._percentile = self._n_lower / self._observations[self._objective_names[0]].size\<close>.
  The optional callable is represented by the integer it returns. Both operands of the
  division are Python numbers, so a size of zero raises \<^verbatim>\<open>ZeroDivisionError\<close>, after
  \<^verbatim>\<open>_n_lower\<close> has been assigned.
\<close>

definition set_group_boundary :: "('d, 't) tpe \<Rightarrow> int option \<Rightarrow> error option \<times> ('d, 't) tpe" where
  "set_group_boundary s pfunc =
     (case (case pfunc of None \<Rightarrow> percentile_func s | Some k \<Rightarrow> Inr k) of
        Inl e \<Rightarrow> (Some e, s)
      | Inr k \<Rightarrow>
          (case objective_names s of
             [] \<Rightarrow> (Some IndexError, s\<lparr>n_lower := k\<rparr>)
           | name0 # _ \<Rightarrow>
               (case observations s name0 of
                  None \<Rightarrow> (Some (KeyError name0), s\<lparr>n_lower := k\<rparr>)
                | Some col \<Rightarrow>
                    if length col = 0 then (Some ZeroDivisionError, s\<lparr>n_lower := k\<rparr>)
                    else (None, s\<lparr>n_lower := k,
                                    percentile := real_of_int k / real (length col)\<rparr>))))"

text \<open>
  \<^verbatim>\<open>any(self._observations[objective_name].size != 0 for objective_name in
  self._objective_names)\<close>: stops at the first column that has data.
\<close>

fun any_has_data :: "(string \<rightharpoonup> ndarray) \<Rightarrow> string list \<Rightarrow> error + bool" where
  "any_has_data obs [] = Inr False"
| "any_has_data obs (name # rest) =
     (case obs name of
        None \<Rightarrow> Inl (KeyError name)
      | Some col \<Rightarrow> if length col \<noteq> 0 then Inr True else any_has_data obs rest)"

text \<open>
  \<^verbatim>\<open>{name: observations[name][order] for name in observations.keys()}\<close>: the
  comprehension is evaluated in full before the dictionary it builds is used, and one
  column that is too short for \<open>order\<close> raises.
\<close>

fun index_columns :: "(string \<times> ndarray) list \<Rightarrow> nat list \<Rightarrow> error + (string \<times> ndarray) list" where
  "index_columns [] order = Inr []"
| "index_columns ((name, vals) # rest) order =
     (case take_idx vals order of
        Inl e \<Rightarrow> Inl e
      | Inr sorted_vals \<Rightarrow>
          (case index_columns rest order of
             Inl e \<Rightarrow> Inl e
           | Inr sorted_rest \<Rightarrow> Inr ((name, sorted_vals) # sorted_rest)))"

text \<open>
  \<^verbatim>\<open>BaseTPE.apply_knowledge_augmentation\<close>. The argument \<open>obs\<close> is the dictionary
  \<^verbatim>\<open>observations\<close> of the caller in its iteration order, \<open>pfunc\<close> the result of the
  optional \<^verbatim>\<open>percentile_func\<close>.
\<close>

definition apply_knowledge_augmentation ::
  "(ndarray \<Rightarrow> nat list) \<Rightarrow> (string \<rightharpoonup> 't) \<Rightarrow> ('d, 't) tpe \<Rightarrow> (string \<times> ndarray) list
     \<Rightarrow> int option \<Rightarrow> error option \<times> ('d, 't) tpe" where
  "apply_knowledge_augmentation argsort config2type s obs pfunc =
     (case any_has_data (observations s) (objective_names s) of
        Inl e \<Rightarrow> (Some e, s)
      | Inr True \<Rightarrow>
          (Some (ValueError ''Knowledge augmentation must be applied before the optimization.''), s)
      | Inr False \<Rightarrow>
          if list_ex (\<lambda>name. map_of obs name = None) (objective_names s) then
            (Some (ValueError ''All objectives must be provided for when applying knowledge augmentation''), s)
          else
            (case calculate_order argsort (s\<lparr>observations := observations s ++ map_of obs\<rparr>) None of
               Inl e \<Rightarrow> (Some e, s\<lparr>observations := observations s ++ map_of obs\<rparr>)
             | Inr (order, s1) \<Rightarrow>
                 (case index_columns obs order of
                    Inl e \<Rightarrow> (Some e, s1)
                  | Inr sorted_cols \<Rightarrow>
                      (case set_group_boundary
                              (s1\<lparr>sorted_observations := sorted_observations s1 ++ map_of sorted_cols\<rparr>)
                              pfunc of
                         (Some e, s2) \<Rightarrow> (Some e, s2)
                       | (None, s2) \<Rightarrow> update_parzen_estimators config2type s2))))"

text \<open>
  The body shared by the two loops of \<^verbatim>\<open>BaseTPE.update_observations\<close>: for each name,
  read the new value from the dictionary \<open>vals\<close>, append it to the stored column and
  set the sorted column to the stored one indexed by \<open>order\<close>.
\<close>

fun append_columns ::
  "('d, 't) tpe \<Rightarrow> (string \<rightharpoonup> real) \<Rightarrow> nat list \<Rightarrow> string list \<Rightarrow> error option \<times> ('d, 't) tpe" where
  "append_columns s vals order [] = (None, s)"
| "append_columns s vals order (name # rest) =
     (case vals name of
        None \<Rightarrow> (Some (KeyError name), s)
      | Some v \<Rightarrow>
          (case observations s name of
             None \<Rightarrow> (Some (KeyError name), s)
           | Some col \<Rightarrow>
               (case take_idx (np_append col v) order of
                  Inl e \<Rightarrow> (Some e, s\<lparr>observations := (observations s)(name \<mapsto> np_append col v)\<rparr>)
                | Inr sorted_col \<Rightarrow>
                    append_columns
                      (s\<lparr>observations := (observations s)(name \<mapsto> np_append col v),
                         sorted_observations := (sorted_observations s)(name \<mapsto> sorted_col)\<rparr>)
                      vals order rest)))"

text \<open>
  \<^verbatim>\<open>BaseTPE.update_observations\<close>. \<open>results\<close> is the dictionary \<^verbatim>\<open>results[0]\<close> that the
  code reads the objective values from. The \<^verbatim>\<open>else\<close> of the second \<^verbatim>\<open>for\<close> always runs
  (the loop has no \<^verbatim>\<open>break\<close>); its last statement appends the runtime to the stored
  runtime column.
\<close>

definition update_observations ::
  "(ndarray \<Rightarrow> nat list) \<Rightarrow> (string \<rightharpoonup> 't) \<Rightarrow> ('d, 't) tpe \<Rightarrow> (string \<rightharpoonup> real)
     \<Rightarrow> (string \<rightharpoonup> real) \<Rightarrow> real \<Rightarrow> int option \<Rightarrow> error option \<times> ('d, 't) tpe" where
  "update_observations argsort config2type s eval_config results runtime pfunc =
     (case calculate_order argsort s (Some results) of
        Inl e \<Rightarrow> (Some e, s)
      | Inr (order, s1) \<Rightarrow>
          (case append_columns s1 results order (objective_names s1) of
             (Some e, s2) \<Rightarrow> (Some e, s2)
           | (None, s2) \<Rightarrow>
               (case append_columns s2 eval_config order (hp_names s2) of
                  (Some e, s3) \<Rightarrow> (Some e, s3)
                | (None, s3) \<Rightarrow>
                    (case set_group_boundary s3 pfunc of
                       (Some e, s4) \<Rightarrow> (Some e, s4)
                     | (None, s4) \<Rightarrow>
                         (case update_parzen_estimators config2type s4 of
                            (Some e, s5) \<Rightarrow> (Some e, s5)
                          | (None, s5) \<Rightarrow>
                              (case observations s5 (runtime_name s5) of
                                 None \<Rightarrow> (Some (KeyError (runtime_name s5)), s5)
                               | Some col \<Rightarrow>
                                   (None, s5\<lparr>observations :=
                                      (observations s5)(runtime_name s5 \<mapsto> np_append col runtime)\<rparr>)))))))"

section \<open>Columns of equal length\<close>

text \<open>
  The names of the columns of the store: the dimensions, the objectives and the runtime.
\<close>

definition column_names :: "('d, 't) tpe \<Rightarrow> string list" where
  "column_names s = hp_names s @ objective_names s @ [runtime_name s]"

text \<open>Every column of the store is there and holds \<open>n\<close> values.\<close>

definition aligned :: "('d, 't) tpe \<Rightarrow> nat \<Rightarrow> bool" where
  "aligned s n =
     list_all (\<lambda>name. case observations s name of None \<Rightarrow> False | Some col \<Rightarrow> length col = n)
       (column_names s)"

text \<open>The dictionary \<open>vals\<close> has a value for each of the names.\<close>

definition covers :: "(string \<rightharpoonup> real) \<Rightarrow> string list \<Rightarrow> bool" where
  "covers vals names = list_all (\<lambda>name. vals name \<noteq> None) names"

section \<open>A concrete instance\<close>

text \<open>
  One numerical dimension \<open>x\<close>, the objective \<open>loss\<close>, the runtime column \<open>t\<close> and the
  quantile \<open>1/2\<close>; the table of types knows the class of \<open>x\<close>.
\<close>

definition example_space :: "unit configuration_space" where
  "example_space = [(''x'', Hyperparameter ''UniformFloatHyperparameter'' ())]"

definition example_types :: "string \<rightharpoonup> string" where
  "example_types = [''UniformFloatHyperparameter'' \<mapsto> ''float'']"

definition example_tpe :: "(unit, string) tpe" where
  "example_tpe = init_TPE example_space ''loss'' ''t'' (3 / 100) 1 (1 / 2)"

text \<open>
  The instance after two appends with the same loss: first \<open>x = 1/2\<close>, then \<open>x = 1/4\<close>.
\<close>

definition example_tied :: "(unit, string) tpe" where
  "example_tied =
     snd (update_observations argsort_stable example_types
            (snd (update_observations argsort_stable example_types example_tpe
                    [''x'' \<mapsto> 1 / 2] [''loss'' \<mapsto> 1] 2 None))
            [''x'' \<mapsto> 1 / 4] [''loss'' \<mapsto> 1] 3 None)"

text \<open>
  A second instance with a numerical dimension \<open>x\<close> and a categorical dimension \<open>c\<close>,
  seeded with three observations.
\<close>

definition example_mixed_space :: "unit configuration_space" where
  "example_mixed_space =
     [(''x'', Hyperparameter ''UniformFloatHyperparameter'' ()),
      (''c'', Hyperparameter ''CategoricalHyperparameter'' ())]"

definition example_mixed :: "(unit, string) tpe" where
  "example_mixed =
     snd (apply_knowledge_augmentation argsort_stable example_types
            (init_TPE example_mixed_space ''loss'' ''t'' (3 / 100) 1 (1 / 2))
            [(''x'', [5, 6, 7]), (''c'', [0, 1, 2]), (''loss'', [3, 1, 2])] None)"

lemmas example_defs =
  example_tpe_def example_space_def example_types_def init_TPE_def empty_columns_def
  class_flags_def

lemmas run_defs =
  update_observations_def apply_knowledge_augmentation_def calculate_order_def
  set_group_boundary_def percentile_func_def update_parzen_estimators_def
  split_and_build_def get_parzen_estimator_def get_hyperparameter_def np_append_def take_idx_def
  slice_to_def slice_from_def argsort_stable_def

section \<open>Seeding is rejected without side effects\<close>

lemma any_has_data_present:
  "set names \<subseteq> dom obs \<Longrightarrow>
     any_has_data obs names = Inr (list_ex (\<lambda>name. obs name \<noteq> Some []) names)"
  by (induction names) (auto split: option.splits)

text \<open>
  C6: On an instance that has a column for every objective (as the constructor leaves
  it), \<^verbatim>\<open>apply_knowledge_augmentation\<close> raises a \<^verbatim>\<open>ValueError\<close> when some objective
  column already has data or when some objective name is missing from the input, and the
  instance at the end of the call is the instance at its start: no column of the store
  or of the sorted view, and no other attribute, has changed.
\<close>

theorem seed_rejected_without_side_effects:
  assumes "set (objective_names s) \<subseteq> dom (observations s)"
    and "list_ex (\<lambda>name. observations s name \<noteq> Some []) (objective_names s)
         \<or> list_ex (\<lambda>name. map_of obs name = None) (objective_names s)"
  shows "\<exists>msg. apply_knowledge_augmentation argsort config2type s obs pfunc
           = (Some (ValueError msg), s)"
  using assms
  by (auto simp: apply_knowledge_augmentation_def any_has_data_present split: bool.splits)

text \<open>
  Both failures at the concrete instance: an input without the objective on the fresh
  instance, and a full input on an instance whose objective column holds one value.
\<close>

theorem seed_rejected_without_side_effects_witness:
  "(\<exists>msg. apply_knowledge_augmentation argsort_stable example_types example_tpe
             [(''x'', [1])] None
           = (Some (ValueError msg), example_tpe))
   \<and> (\<exists>msg. apply_knowledge_augmentation argsort_stable example_types
               (example_tpe\<lparr>observations := (observations example_tpe)(''loss'' \<mapsto> [1])\<rparr>)
               [(''loss'', [2]), (''x'', [1])] None
             = (Some (ValueError msg),
                example_tpe\<lparr>observations := (observations example_tpe)(''loss'' \<mapsto> [1])\<rparr>))"
proof
  show "\<exists>msg. apply_knowledge_augmentation argsort_stable example_types example_tpe
             [(''x'', [1])] None
           = (Some (ValueError msg), example_tpe)"
    using seed_rejected_without_side_effects
      [of example_tpe "[(''x'', [1])]" argsort_stable example_types None]
    by (simp add: example_defs)
next
  show "\<exists>msg. apply_knowledge_augmentation argsort_stable example_types
               (example_tpe\<lparr>observations := (observations example_tpe)(''loss'' \<mapsto> [1])\<rparr>)
               [(''loss'', [2]), (''x'', [1])] None
             = (Some (ValueError msg),
                example_tpe\<lparr>observations := (observations example_tpe)(''loss'' \<mapsto> [1])\<rparr>)"
    using seed_rejected_without_side_effects
      [of "example_tpe\<lparr>observations := (observations example_tpe)(''loss'' \<mapsto> [1])\<rparr>"
          "[(''loss'', [2]), (''x'', [1])]" argsort_stable example_types None]
    by (simp add: example_defs)
qed

section \<open>The ranking\<close>

text \<open>\<open>argsort_stable\<close> meets the contract of \<^verbatim>\<open>np.argsort\<close> on every array.\<close>

lemma argsort_stable_is_argsort: "is_argsort arr (argsort_stable arr)"
  unfolding is_argsort_def argsort_stable_def
  apply (intro conjI)
  subgoal by (rule properties_for_sort) simp_all
  subgoal by (rule sorted_sort_key)
  done

lemma is_argsort_mset: "is_argsort arr order \<Longrightarrow> mset order = mset [0..<length arr]"
  unfolding is_argsort_def by (metis mset_sort)

lemma is_argsort_in_range: "is_argsort arr order \<Longrightarrow> list_all (\<lambda>i. i < length arr) order"
proof -
  assume a: "is_argsort arr order"
  have "set order = set [0..<length arr]" using is_argsort_mset[OF a] by (rule mset_eq_setD)
  then show ?thesis by (auto simp: list_all_iff)
qed

lemma example_tied_cols:
  "observations example_tied ''loss'' = Some [1, 1] \<and> objective_name example_tied = ''loss''
   \<and> observations example_tied ''x'' = Some [1 / 2, 1 / 4]"
  by (simp add: example_tied_def run_defs example_defs)

text \<open>
  \<^verbatim>\<open>_calculate_order\<close> ranks the stored objective column, or that column with the
  candidate's value appended when \<open>results\<close> is given, by \<^verbatim>\<open>np.argsort\<close>, stores the
  ranking in \<^verbatim>\<open>self._order\<close> and returns it. The order of equal values in the ranking is
  whatever the library call yields for its default kind.
\<close>

lemma calculate_order_run:
  assumes "observations s (objective_name s) = Some col"
  shows "calculate_order argsort s None = Inr (argsort col, s\<lparr>order_idx := Some (argsort col)\<rparr>)"
    and "res (objective_name s) = Some v \<Longrightarrow>
         calculate_order argsort s (Some res)
           = Inr (argsort (np_append col v), s\<lparr>order_idx := Some (argsort (np_append col v))\<rparr>)"
  using assms by (auto simp: calculate_order_def)

section \<open>The density-model dispatcher\<close>

lemma slice_append: "slice_to arr k @ slice_from arr k = arr"
  by (simp add: slice_to_def slice_from_def)

lemma slice_to_zero: "slice_to arr 0 = []"
  by (simp add: slice_to_def)

lemma split_and_build_ready:
  assumes "dispatch_ready config2type s hp_name"
  shows "\<exists>pe_lower pe_upper. split_and_build config2type s hp_name = Inr (pe_lower, pe_upper)"
  using assms
  by (auto simp: dispatch_ready_def split_and_build_def get_parzen_estimator_def
        get_hyperparameter_def split: option.splits)

lemma parzen_estimators_loop_total:
  "list_all (dispatch_ready config2type s) names \<Longrightarrow>
     \<exists>lo up. parzen_estimators_loop config2type s names (lo0, up0) = Inr (lo, up)"
proof (induction names arbitrary: lo0 up0)
  case Nil
  then show ?case by simp
next
  case (Cons name names)
  from Cons.prems obtain pl pu where b: "split_and_build config2type s name = Inr (pl, pu)"
    using split_and_build_ready by fastforce
  from Cons.prems have "list_all (dispatch_ready config2type s) names" by simp
  from Cons.IH[OF this] show ?case using b by simp
qed

lemma parzen_estimators_loop_lookup:
  "parzen_estimators_loop config2type s names (lo0, up0) = Inr (lo, up) \<Longrightarrow>
     (\<forall>hp. hp \<in> set names \<longrightarrow>
        (\<exists>pl pu. split_and_build config2type s hp = Inr (pl, pu) \<and> lo hp = Some pl \<and> up hp = Some pu))
     \<and> (\<forall>hp. hp \<notin> set names \<longrightarrow> lo hp = lo0 hp \<and> up hp = up0 hp)"
proof (induction names arbitrary: lo0 up0)
  case Nil
  then show ?case by simp
next
  case (Cons name names)
  from Cons.prems obtain pl pu where b: "split_and_build config2type s name = Inr (pl, pu)"
    and r: "parzen_estimators_loop config2type s names (lo0(name \<mapsto> pl), up0(name \<mapsto> pu)) = Inr (lo, up)"
    by (auto split: sum.splits)
  note ih = Cons.IH[OF r]
  show ?case
  proof (intro conjI allI impI)
    fix hp assume "hp \<in> set (name # names)"
    show "\<exists>pl pu. split_and_build config2type s hp = Inr (pl, pu) \<and> lo hp = Some pl \<and> up hp = Some pu"
    proof (cases "hp \<in> set names")
      case True
      then show ?thesis using ih by blast
    next
      case False
      with \<open>hp \<in> set (name # names)\<close> have "hp = name" by simp
      with False ih b show ?thesis by simp
    qed
  next
    fix hp assume "hp \<notin> set (name # names)"
    then show "lo hp = lo0 hp" using ih by simp
  next
    fix hp assume "hp \<notin> set (name # names)"
    then show "up hp = up0 hp" using ih by simp
  qed
qed

text \<open>
  C7: When the lookups of the dispatcher succeed for every dimension, a rebuild of the
  density models raises nothing and leaves, for every dimension, one model per group in
  \<^verbatim>\<open>pe_lower_dict\<close> and \<^verbatim>\<open>pe_upper_dict\<close>, which become the two joint models. The model
  of the lower group is built from \<^verbatim>\<open>sorted[:n_lower]\<close> and that of the upper group from
  \<^verbatim>\<open>sorted[n_lower:]\<close>, the two parts of the dimension's sorted column. For a
  categorical dimension the builder gets the values, the hyperparameter and \<^verbatim>\<open>top\<close>; for
  any other dimension it gets the values, the hyperparameter (which holds the domain),
  the type from \<^verbatim>\<open>config2type\<close>, the ordinal flag and the minimum bandwidth factor. An
  empty group, as with \<^verbatim>\<open>n_lower = 0\<close>, is passed like any other.
\<close>

theorem dispatch_per_dimension:
  assumes ready: "list_all (dispatch_ready config2type s) (hp_names s)"
    and hp: "hp_name \<in> set (hp_names s)"
    and cfg: "map_of (config_space s) hp_name = Some config"
    and srt: "sorted_observations s hp_name = Some sorted_obs"
    and cat: "is_categoricals s hp_name = Some is_categorical"
    and ord: "is_ordinals s hp_name = Some is_ordinal"
  shows "\<exists>pe_lower_dict pe_upper_dict.
           update_parzen_estimators config2type s
             = (None, s\<lparr>mvpe_lower := Some (MultiVariateParzenEstimator pe_lower_dict),
                        mvpe_upper := Some (MultiVariateParzenEstimator pe_upper_dict)\<rparr>)
         \<and> dom pe_lower_dict = set (hp_names s) \<and> dom pe_upper_dict = set (hp_names s)
         \<and> (if is_categorical then
               pe_lower_dict hp_name
                 = Some (build_categorical_parzen_estimator
                           (slice_to sorted_obs (n_lower s)) config (top_prob s))
               \<and> pe_upper_dict hp_name
                 = Some (build_categorical_parzen_estimator
                           (slice_from sorted_obs (n_lower s)) config (top_prob s))
             else
               (\<exists>dtype. config2type (class_name config) = Some dtype
                  \<and> pe_lower_dict hp_name
                      = Some (build_numerical_parzen_estimator
                                (slice_to sorted_obs (n_lower s)) config dtype is_ordinal
                                (min_bandwidth_factor s))
                  \<and> pe_upper_dict hp_name
                      = Some (build_numerical_parzen_estimator
                                (slice_from sorted_obs (n_lower s)) config dtype is_ordinal
                                (min_bandwidth_factor s))))
         \<and> slice_to sorted_obs (n_lower s) @ slice_from sorted_obs (n_lower s) = sorted_obs
         \<and> (n_lower s = 0 \<longrightarrow> slice_to sorted_obs (n_lower s) = [])"
proof -
  from parzen_estimators_loop_total[OF ready] obtain lo up where
    loop: "parzen_estimators_loop config2type s (hp_names s) (Map.empty, Map.empty) = Inr (lo, up)"
    by blast
  note lk = parzen_estimators_loop_lookup[OF loop]
  have upd: "update_parzen_estimators config2type s
             = (None, s\<lparr>mvpe_lower := Some (MultiVariateParzenEstimator lo),
                        mvpe_upper := Some (MultiVariateParzenEstimator up)\<rparr>)"
    by (simp add: update_parzen_estimators_def loop)
  have dom_lo: "dom lo = set (hp_names s)" using lk by (auto simp: dom_def) 
  have dom_up: "dom up = set (hp_names s)" using lk by (auto simp: dom_def) 
  from lk hp obtain pl pu where
    b: "split_and_build config2type s hp_name = Inr (pl, pu)" and l: "lo hp_name = Some pl"
    and u: "up hp_name = Some pu" by blast
  have body: "(if is_categorical then
               lo hp_name
                 = Some (build_categorical_parzen_estimator
                           (slice_to sorted_obs (n_lower s)) config (top_prob s))
               \<and> up hp_name
                 = Some (build_categorical_parzen_estimator
                           (slice_from sorted_obs (n_lower s)) config (top_prob s))
             else
               (\<exists>dtype. config2type (class_name config) = Some dtype
                  \<and> lo hp_name
                      = Some (build_numerical_parzen_estimator
                                (slice_to sorted_obs (n_lower s)) config dtype is_ordinal
                                (min_bandwidth_factor s))
                  \<and> up hp_name
                      = Some (build_numerical_parzen_estimator
                                (slice_from sorted_obs (n_lower s)) config dtype is_ordinal
                                (min_bandwidth_factor s))))"
    using b l u cfg srt cat ord
    by (auto simp: split_and_build_def get_parzen_estimator_def get_hyperparameter_def
          split: option.splits if_splits)
  show ?thesis
    apply (rule exI[of _ lo], rule exI[of _ up])
    using upd dom_lo dom_up body slice_append slice_to_zero by simp
qed

lemma example_mixed_fields:
  "hp_names example_mixed = [''x'', ''c'']
   \<and> config_space example_mixed = example_mixed_space
   \<and> n_lower example_mixed = 2 \<and> top_prob example_mixed = 1
   \<and> min_bandwidth_factor example_mixed = 3 / 100
   \<and> sorted_observations example_mixed ''x'' = Some [6, 7, 5]
   \<and> sorted_observations example_mixed ''c'' = Some [1, 2, 0]
   \<and> is_categoricals example_mixed ''x'' = Some False
   \<and> is_categoricals example_mixed ''c'' = Some True
   \<and> is_ordinals example_mixed ''x'' = Some False
   \<and> is_ordinals example_mixed ''c'' = Some False"
  by (simp add: example_mixed_def example_mixed_space_def run_defs example_defs)

lemma example_mixed_ready:
  "list_all (dispatch_ready example_types example_mixed) (hp_names example_mixed)"
  using example_mixed_fields
  by (simp add: dispatch_ready_def example_mixed_space_def example_types_def)

text \<open>
  On the seeded instance (\<open>n_lower = 2\<close>): the categorical dimension \<open>c\<close> and the
  numerical dimension \<open>x\<close>.
\<close>

theorem dispatch_per_dimension_witness:
  "(\<exists>pe_lower_dict pe_upper_dict.
      update_parzen_estimators example_types example_mixed
        = (None, example_mixed\<lparr>mvpe_lower := Some (MultiVariateParzenEstimator pe_lower_dict),
                                mvpe_upper := Some (MultiVariateParzenEstimator pe_upper_dict)\<rparr>)
      \<and> pe_lower_dict ''c''
          = Some (build_categorical_parzen_estimator [1, 2]
                    (Hyperparameter ''CategoricalHyperparameter'' ()) 1)
      \<and> pe_upper_dict ''c''
          = Some (build_categorical_parzen_estimator [0]
                    (Hyperparameter ''CategoricalHyperparameter'' ()) 1))
   \<and> (\<exists>pe_lower_dict pe_upper_dict.
      update_parzen_estimators example_types example_mixed
        = (None, example_mixed\<lparr>mvpe_lower := Some (MultiVariateParzenEstimator pe_lower_dict),
                                mvpe_upper := Some (MultiVariateParzenEstimator pe_upper_dict)\<rparr>)
      \<and> pe_lower_dict ''x''
          = Some (build_numerical_parzen_estimator [6, 7]
                    (Hyperparameter ''UniformFloatHyperparameter'' ()) ''float'' False (3 / 100))
      \<and> pe_upper_dict ''x''
          = Some (build_numerical_parzen_estimator [5]
                    (Hyperparameter ''UniformFloatHyperparameter'' ()) ''float'' False (3 / 100)))"
proof -
  have nl: "n_lower example_mixed = 2" and tp: "top_prob example_mixed = 1"
    and bw: "min_bandwidth_factor example_mixed = 3 / 100"
    using example_mixed_fields by simp_all
  have hp_c: "''c'' \<in> set (hp_names example_mixed)"
    and hp_x: "''x'' \<in> set (hp_names example_mixed)"
    using example_mixed_fields by simp_all
  have cfg_c: "map_of (config_space example_mixed) ''c''
          = Some (Hyperparameter ''CategoricalHyperparameter'' ())"
    and cfg_x: "map_of (config_space example_mixed) ''x''
          = Some (Hyperparameter ''UniformFloatHyperparameter'' ())"
    using example_mixed_fields by (simp_all add: example_mixed_space_def)
  have srt_c: "sorted_observations example_mixed ''c'' = Some [1, 2, 0]"
    and cat_c: "is_categoricals example_mixed ''c'' = Some True"
    and ord_c: "is_ordinals example_mixed ''c'' = Some False"
    and srt_x: "sorted_observations example_mixed ''x'' = Some [6, 7, 5]"
    and cat_x: "is_categoricals example_mixed ''x'' = Some False"
    and ord_x: "is_ordinals example_mixed ''x'' = Some False"
    using example_mixed_fields by simp_all
  from dispatch_per_dimension [OF example_mixed_ready hp_c cfg_c srt_c cat_c ord_c]
  obtain lo up where
    upd: "update_parzen_estimators example_types example_mixed
        = (None, example_mixed\<lparr>mvpe_lower := Some (MultiVariateParzenEstimator lo),
                                mvpe_upper := Some (MultiVariateParzenEstimator up)\<rparr>)"
    and l: "lo ''c'' = Some (build_categorical_parzen_estimator
                           (slice_to [1, 2, 0] (n_lower example_mixed))
                           (Hyperparameter ''CategoricalHyperparameter'' ()) (top_prob example_mixed))"
    and u: "up ''c'' = Some (build_categorical_parzen_estimator
                           (slice_from [1, 2, 0] (n_lower example_mixed))
                           (Hyperparameter ''CategoricalHyperparameter'' ()) (top_prob example_mixed))"
    by (elim exE conjE) (simp only: if_True)
  have l': "lo ''c'' = Some (build_categorical_parzen_estimator [1, 2]
                    (Hyperparameter ''CategoricalHyperparameter'' ()) 1)"
    using l by (simp add: nl tp slice_to_def)
  have u': "up ''c'' = Some (build_categorical_parzen_estimator [0]
                    (Hyperparameter ''CategoricalHyperparameter'' ()) 1)"
    using u by (simp add: nl tp slice_from_def)
  from dispatch_per_dimension [OF example_mixed_ready hp_x cfg_x srt_x cat_x ord_x]
  obtain lo2 up2 dtype where
    upd2: "update_parzen_estimators example_types example_mixed
        = (None, example_mixed\<lparr>mvpe_lower := Some (MultiVariateParzenEstimator lo2),
                                mvpe_upper := Some (MultiVariateParzenEstimator up2)\<rparr>)"
    and dt: "example_types (class_name (Hyperparameter ''UniformFloatHyperparameter'' ())) = Some dtype"
    and l2: "lo2 ''x'' = Some (build_numerical_parzen_estimator
                           (slice_to [6, 7, 5] (n_lower example_mixed))
                           (Hyperparameter ''UniformFloatHyperparameter'' ()) dtype False
                           (min_bandwidth_factor example_mixed))"
    and u2: "up2 ''x'' = Some (build_numerical_parzen_estimator
                           (slice_from [6, 7, 5] (n_lower example_mixed))
                           (Hyperparameter ''UniformFloatHyperparameter'' ()) dtype False
                           (min_bandwidth_factor example_mixed))"
    by (elim exE conjE) (simp only: if_False, elim exE conjE, blast)
  have dtype: "dtype = ''float''" using dt by (simp add: example_types_def)
  have l2': "lo2 ''x'' = Some (build_numerical_parzen_estimator [6, 7]
                    (Hyperparameter ''UniformFloatHyperparameter'' ()) ''float'' False (3 / 100))"
    using l2 by (simp add: nl bw dtype slice_to_def)
  have u2': "up2 ''x'' = Some (build_numerical_parzen_estimator [5]
                    (Hyperparameter ''UniformFloatHyperparameter'' ()) ''float'' False (3 / 100))"
    using u2 by (simp add: nl bw dtype slice_from_def)
  from upd l' u' upd2 l2' u2' show ?thesis by (intro exI conjI)
qed

section \<open>Seeding: what it raises and what it stores\<close>

lemma take_idx_perm:
  assumes "set order = {0..<n}"
  shows "take_idx vals order
           = (if n \<le> length vals then Inr (map (\<lambda>i. vals ! i) order) else Inl IndexError)"
proof -
  have "list_all (\<lambda>i. i < length vals) order \<longleftrightarrow> n \<le> length vals"
    using assms by (auto simp: list_all_iff)
  then show ?thesis by (simp add: take_idx_def)
qed

lemma index_columns_perm:
  assumes "set order = {0..<n}"
  shows "index_columns obs order
           = (if list_all (\<lambda>(name, vals). n \<le> length vals) obs
              then Inr (map (\<lambda>(name, vals). (name, map (\<lambda>i. vals ! i) order)) obs)
              else Inl IndexError)"
proof (induction obs)
  case Nil
  then show ?case by simp
next
  case (Cons a obs)
  obtain name vals where a: "a = (name, vals)" by (cases a)
  show ?case using Cons.IH by (simp add: a take_idx_perm[OF assms])
qed

lemma is_argsort_set: "is_argsort arr order \<Longrightarrow> set order = {0..<length arr}"
  using is_argsort_mset[THEN mset_eq_setD] by simp

lemma seed_run:
  assumes nodata: "any_has_data (observations s) (objective_names s) = Inr False"
    and present: "\<not> list_ex (\<lambda>name. map_of obs name = None) (objective_names s)"
    and tpe: "objective_names s = [objective_name s]"
    and col: "map_of obs (objective_name s) = Some col"
    and srt: "is_argsort col (argsort col)"
    and k: "k = (case pfunc of None \<Rightarrow> \<lceil>quantile s * real (length col)\<rceil> | Some k' \<Rightarrow> k')"
  shows "apply_knowledge_augmentation argsort config2type s obs pfunc =
     (if \<not> list_all (\<lambda>(name, vals). length col \<le> length vals) obs then
        (Some IndexError,
         s\<lparr>observations := observations s ++ map_of obs, order_idx := Some (argsort col)\<rparr>)
      else if length col = 0 then
        (Some ZeroDivisionError,
         s\<lparr>observations := observations s ++ map_of obs, order_idx := Some (argsort col),
            sorted_observations := sorted_observations s
               ++ map_of (map (\<lambda>(name, vals). (name, map (\<lambda>i. vals ! i) (argsort col))) obs),
            n_lower := k\<rparr>)
      else
        update_parzen_estimators config2type
          (s\<lparr>observations := observations s ++ map_of obs, order_idx := Some (argsort col),
             sorted_observations := sorted_observations s
               ++ map_of (map (\<lambda>(name, vals). (name, map (\<lambda>i. vals ! i) (argsort col))) obs),
             n_lower := k, percentile := real_of_int k / real (length col)\<rparr>))"
proof -
  note ic = index_columns_perm[OF is_argsort_set[OF srt], of obs]
  show ?thesis
    using nodata present
    by (simp add: apply_knowledge_augmentation_def calculate_order_def col ic tpe
          set_group_boundary_def percentile_func_def k split: option.splits)
qed

lemma update_parzen_estimators_ready:
  assumes "list_all (dispatch_ready config2type s) (hp_names s)"
  shows "\<exists>lo up. update_parzen_estimators config2type s
           = (None, s\<lparr>mvpe_lower := Some (MultiVariateParzenEstimator lo),
                      mvpe_upper := Some (MultiVariateParzenEstimator up)\<rparr>)"
proof -
  from parzen_estimators_loop_total[OF assms] obtain lo up where
    "parzen_estimators_loop config2type s (hp_names s) (Map.empty, Map.empty) = Inr (lo, up)"
    by blast
  then show ?thesis
    by (intro exI[of _ lo] exI[of _ up]) (simp add: update_parzen_estimators_def)
qed

text \<open>
  C8: With no stored observation and an input whose objective array is empty, the
  percentile cut divides by the size zero of the objective column:
  \<^verbatim>\<open>apply_knowledge_augmentation\<close> raises \<^verbatim>\<open>ZeroDivisionError\<close>, whatever the percentile
  function, and \<^verbatim>\<open>_percentile\<close> keeps the value it had, so no default is written. The
  same holds for the computation of the group boundary on its own. (An append never
  meets this case: it first appends to the objective column.)
\<close>

theorem seed_without_observations_division_fault:
  assumes tpe: "objective_names s = [objective_name s]"
    and empty: "observations s (objective_name s) = Some []"
    and col: "map_of obs (objective_name s) = Some []"
    and srt: "is_argsort [] (argsort [])"
  shows "fst (set_group_boundary s pfunc) = Some ZeroDivisionError
     \<and> percentile (snd (set_group_boundary s pfunc)) = percentile s
     \<and> fst (apply_knowledge_augmentation argsort config2type s obs pfunc) = Some ZeroDivisionError
     \<and> percentile (snd (apply_knowledge_augmentation argsort config2type s obs pfunc))
         = percentile s"
proof -
  have gb: "fst (set_group_boundary s pfunc) = Some ZeroDivisionError
     \<and> percentile (snd (set_group_boundary s pfunc)) = percentile s"
    by (simp add: set_group_boundary_def percentile_func_def tpe empty split: option.splits)
  have nodata: "any_has_data (observations s) (objective_names s) = Inr False"
    by (simp add: tpe empty)
  have present: "\<not> list_ex (\<lambda>name. map_of obs name = None) (objective_names s)"
    by (simp add: tpe col)
  have all: "list_all (\<lambda>(name, vals). length ([]::ndarray) \<le> length vals) obs"
    by (simp add: list_all_iff split: prod.splits)
  from seed_run[where s=s and obs=obs and col="[]" and argsort=argsort and pfunc=pfunc
      and config2type=config2type, OF nodata present tpe col srt refl] all
  have "fst (apply_knowledge_augmentation argsort config2type s obs pfunc) = Some ZeroDivisionError
     \<and> percentile (snd (apply_knowledge_augmentation argsort config2type s obs pfunc))
         = percentile s"
    by simp
  with gb show ?thesis by simp
qed

text \<open>Seeding the fresh instance with empty arrays.\<close>

theorem seed_without_observations_division_fault_witness:
  "fst (apply_knowledge_augmentation argsort_stable example_types example_tpe
          [(''x'', []), (''loss'', [])] None) = Some ZeroDivisionError
   \<and> percentile (snd (apply_knowledge_augmentation argsort_stable example_types example_tpe
          [(''x'', []), (''loss'', [])] None)) = 0"
  using seed_without_observations_division_fault
    [of example_tpe "[(''x'', []), (''loss'', [])]" argsort_stable None example_types]
    argsort_stable_is_argsort[of "[]"]
  by (simp add: example_defs)

lemma list_ex_short:
  "list_ex (\<lambda>(name, vals). length vals < n) obs
     \<longleftrightarrow> \<not> list_all (\<lambda>(name, vals). n \<le> length vals) obs"
  by (induction obs) (auto simp: not_le)

lemma seed_accepted:
  assumes nodata: "any_has_data (observations s) (objective_names s) = Inr False"
    and present: "\<not> list_ex (\<lambda>name. map_of obs name = None) (objective_names s)"
    and tpe: "objective_names s = [objective_name s]"
    and col: "map_of obs (objective_name s) = Some col"
    and srt: "is_argsort col (argsort col)"
    and ready: "list_all (dispatch_ready config2type s) (hp_names s)"
    and long: "list_all (\<lambda>(name, vals). length col \<le> length vals) obs"
    and nonempty: "col \<noteq> []"
  shows "fst (apply_knowledge_augmentation argsort config2type s obs pfunc) = None
     \<and> observations (snd (apply_knowledge_augmentation argsort config2type s obs pfunc))
         = observations s ++ map_of obs"
proof -
  define k where "k = (case pfunc of None \<Rightarrow> \<lceil>quantile s * real (length col)\<rceil> | Some k' \<Rightarrow> k')"
  define s' where "s' = s\<lparr>observations := observations s ++ map_of obs, order_idx := Some (argsort col),
             sorted_observations := sorted_observations s
               ++ map_of (map (\<lambda>(name, vals). (name, map (\<lambda>i. vals ! i) (argsort col))) obs),
             n_lower := k, percentile := real_of_int k / real (length col)\<rparr>"
  have run: "apply_knowledge_augmentation argsort config2type s obs pfunc
               = update_parzen_estimators config2type s'"
    using seed_run[where s=s and obs=obs and col=col and argsort=argsort and pfunc=pfunc
      and config2type=config2type and k=k, OF nodata present tpe col srt k_def] long nonempty
    by (simp add: s'_def)
  have "list_all (dispatch_ready config2type s') (hp_names s')"
    using ready
    by (auto simp: list_all_iff dispatch_ready_def s'_def map_add_def split: option.splits)
  from update_parzen_estimators_ready[OF this] show ?thesis
    by (auto simp: run s'_def)
qed

text \<open>
  C10, as the code has it. On an instance of \<^verbatim>\<open>TPE\<close> that has a column for every
  objective and whose dimensions the dispatcher can build models for,
  \<^verbatim>\<open>apply_knowledge_augmentation\<close> raises a \<^verbatim>\<open>ValueError\<close> exactly when some objective
  column already has data or some objective name is missing from the input. Otherwise it
  raises \<^verbatim>\<open>IndexError\<close> exactly when some array of the input is shorter than the
  objective array, \<^verbatim>\<open>ZeroDivisionError\<close> exactly when the objective array of the input
  is empty, and nothing in every remaining case. An input that is accepted replaces the
  columns it names and leaves every other column, such as that of a dimension it omits,
  as it was.
\<close>

theorem seed_error_characterisation:
  assumes objs: "set (objective_names s) \<subseteq> dom (observations s)"
    and tpe: "objective_names s = [objective_name s]"
    and srt: "\<forall>col. map_of obs (objective_name s) = Some col \<longrightarrow> is_argsort col (argsort col)"
    and ready: "list_all (dispatch_ready config2type s) (hp_names s)"
  shows "((\<exists>msg. fst (apply_knowledge_augmentation argsort config2type s obs pfunc)
                   = Some (ValueError msg))
            \<longleftrightarrow> list_ex (\<lambda>name. observations s name \<noteq> Some []) (objective_names s)
                \<or> list_ex (\<lambda>name. map_of obs name = None) (objective_names s))
     \<and> (fst (apply_knowledge_augmentation argsort config2type s obs pfunc) \<noteq> None
            \<longleftrightarrow> list_ex (\<lambda>name. observations s name \<noteq> Some []) (objective_names s)
                \<or> list_ex (\<lambda>name. map_of obs name = None) (objective_names s)
                \<or> (\<exists>col. map_of obs (objective_name s) = Some col
                       \<and> (col = [] \<or> list_ex (\<lambda>(name, vals). length vals < length col) obs)))
     \<and> (fst (apply_knowledge_augmentation argsort config2type s obs pfunc) = Some IndexError
            \<longleftrightarrow> \<not> list_ex (\<lambda>name. observations s name \<noteq> Some []) (objective_names s)
                \<and> \<not> list_ex (\<lambda>name. map_of obs name = None) (objective_names s)
                \<and> (\<exists>col. map_of obs (objective_name s) = Some col
                       \<and> list_ex (\<lambda>(name, vals). length vals < length col) obs))
     \<and> (fst (apply_knowledge_augmentation argsort config2type s obs pfunc)
            = Some ZeroDivisionError
            \<longleftrightarrow> \<not> list_ex (\<lambda>name. observations s name \<noteq> Some []) (objective_names s)
                \<and> \<not> list_ex (\<lambda>name. map_of obs name = None) (objective_names s)
                \<and> map_of obs (objective_name s) = Some [])
     \<and> (fst (apply_knowledge_augmentation argsort config2type s obs pfunc) = None
            \<longrightarrow> observations (snd (apply_knowledge_augmentation argsort config2type s obs pfunc))
                  = observations s ++ map_of obs)"
proof (cases "list_ex (\<lambda>name. observations s name \<noteq> Some []) (objective_names s)
                \<or> list_ex (\<lambda>name. map_of obs name = None) (objective_names s)")
  case True
  with objs have "\<exists>msg. apply_knowledge_augmentation argsort config2type s obs pfunc
           = (Some (ValueError msg), s)"
    by (auto simp: apply_knowledge_augmentation_def any_has_data_present split: bool.splits)
  with True show ?thesis by auto
next
  case False
  then have nodata: "any_has_data (observations s) (objective_names s) = Inr False"
    and present: "\<not> list_ex (\<lambda>name. map_of obs name = None) (objective_names s)"
    using objs by (simp_all add: any_has_data_present)
  from present tpe obtain col where col: "map_of obs (objective_name s) = Some col"
    by auto
  with srt have sorted: "is_argsort col (argsort col)" by simp
  define k where "k = (case pfunc of None \<Rightarrow> \<lceil>quantile s * real (length col)\<rceil> | Some k' \<Rightarrow> k')"
  note run = seed_run[where s=s and obs=obs and col=col and argsort=argsort and pfunc=pfunc
      and config2type=config2type and k=k, OF nodata present tpe col sorted k_def]
  consider (short) "\<not> list_all (\<lambda>(name, vals). length col \<le> length vals) obs"
    | (empty) "list_all (\<lambda>(name, vals). length col \<le> length vals) obs" "col = []"
    | (ok) "list_all (\<lambda>(name, vals). length col \<le> length vals) obs" "col \<noteq> []"
    by blast
  then show ?thesis
  proof cases
    case short
    then have "fst (apply_knowledge_augmentation argsort config2type s obs pfunc) = Some IndexError"
      using run by simp
    moreover from short have "col \<noteq> []" by (auto simp: list_all_iff)
    ultimately show ?thesis using False short col by (simp add: list_ex_short)
  next
    case empty
    then have "fst (apply_knowledge_augmentation argsort config2type s obs pfunc)
                 = Some ZeroDivisionError"
      using run by simp
    with False empty col show ?thesis by (simp add: list_ex_short)
  next
    case ok
    from seed_accepted[where s=s and obs=obs and col=col and argsort=argsort and pfunc=pfunc
      and config2type=config2type, OF nodata present tpe col sorted ready ok]
    show ?thesis using False ok col by (simp add: list_ex_short)
  qed
qed

lemma example_tpe_ready:
  "list_all (dispatch_ready example_types example_tpe) (hp_names example_tpe)"
  by (simp add: dispatch_ready_def example_defs)

text \<open>
  An input with the objective only is accepted on the fresh instance: the column of the
  dimension \<open>x\<close> stays empty, the objective column is populated.
\<close>

theorem seed_error_characterisation_witness:
  "fst (apply_knowledge_augmentation argsort_stable example_types example_tpe
          [(''loss'', [3, 1, 2])] None) = None
   \<and> observations (snd (apply_knowledge_augmentation argsort_stable example_types example_tpe
          [(''loss'', [3, 1, 2])] None)) ''x'' = Some []
   \<and> observations (snd (apply_knowledge_augmentation argsort_stable example_types example_tpe
          [(''loss'', [3, 1, 2])] None)) ''loss'' = Some [3, 1, 2]"
proof -
  have objs: "set (objective_names example_tpe) \<subseteq> dom (observations example_tpe)"
    and tpe: "objective_names example_tpe = [objective_name example_tpe]"
    by (simp_all add: example_defs)
  have srt: "\<forall>col. map_of [(''loss'', [3, 1, 2])] (objective_name example_tpe) = Some col
               \<longrightarrow> is_argsort col (argsort_stable col)"
    by (simp add: argsort_stable_is_argsort)
  have facts: "objective_name example_tpe = ''loss''"
    "observations example_tpe ''loss'' = Some []" "observations example_tpe ''x'' = Some []"
    by (simp_all add: example_defs)
  from seed_error_characterisation[where s=example_tpe and obs="[(''loss'', [3, 1, 2])]"
      and argsort=argsort_stable and config2type=example_types and pfunc=None,
      OF objs tpe srt example_tpe_ready]
  show ?thesis by (simp add: tpe facts)
qed

text \<open>
  C10 as stated fails: on the fresh instance, where no objective column has data, an
  input that names the objective raises \<^verbatim>\<open>ZeroDivisionError\<close> when its arrays are empty,
  and \<^verbatim>\<open>IndexError\<close> when the array of \<open>x\<close> is shorter than that of the objective.
\<close>

theorem seed_error_only_precondition_counterexample:
  "fst (apply_knowledge_augmentation argsort_stable example_types example_tpe
          [(''x'', []), (''loss'', [])] None) = Some ZeroDivisionError
   \<and> fst (apply_knowledge_augmentation argsort_stable example_types example_tpe
          [(''x'', [1]), (''loss'', [3, 1, 2])] None) = Some IndexError
   \<and> observations example_tpe ''loss'' = Some []
   \<and> objective_names example_tpe = [''loss'']"
  by (simp add: run_defs example_defs)

section \<open>Appending an observation\<close>

lemma append_columns_run:
  assumes "distinct names"
    and "\<forall>name\<in>set names. \<exists>v col. vals name = Some v \<and> observations s name = Some col
            \<and> list_all (\<lambda>i. i < Suc (length col)) order"
  shows "\<exists>obs' srt'. append_columns s vals order names
             = (None, s\<lparr>observations := obs', sorted_observations := srt'\<rparr>)
     \<and> (\<forall>name. name \<notin> set names \<longrightarrow>
            obs' name = observations s name \<and> srt' name = sorted_observations s name)
     \<and> (\<forall>name v col. name \<in> set names \<longrightarrow> vals name = Some v \<longrightarrow> observations s name = Some col
            \<longrightarrow> obs' name = Some (col @ [v])
                \<and> srt' name = Some (map (\<lambda>i. (col @ [v]) ! i) order))"
  using assms
proof (induction names arbitrary: s)
  case Nil
  show ?case
    by (rule exI[of _ "observations s"], rule exI[of _ "sorted_observations s"]) simp
next
  case (Cons name names)
  from Cons.prems(2) obtain v col where
    v: "vals name = Some v" and col: "observations s name = Some col"
    and inr: "list_all (\<lambda>i. i < Suc (length col)) order"
    by auto
  define s1 where "s1 = s\<lparr>observations := (observations s)(name \<mapsto> col @ [v]),
      sorted_observations := (sorted_observations s)(name \<mapsto> map (\<lambda>i. (col @ [v]) ! i) order)\<rparr>"
  have step: "append_columns s vals order (name # names) = append_columns s1 vals order names"
    using v col inr by (simp add: take_idx_def np_append_def s1_def)
  have d: "distinct names" and nin: "name \<notin> set names" using Cons.prems(1) by simp_all
  have pre: "\<forall>name\<in>set names. \<exists>v col. vals name = Some v \<and> observations s1 name = Some col
            \<and> list_all (\<lambda>i. i < Suc (length col)) order"
    using Cons.prems(2) nin by (auto simp: s1_def)
  from Cons.IH[OF d pre] obtain obs' srt' where
    run: "append_columns s1 vals order names
             = (None, s1\<lparr>observations := obs', sorted_observations := srt'\<rparr>)"
    and out: "\<forall>n. n \<notin> set names \<longrightarrow>
            obs' n = observations s1 n \<and> srt' n = sorted_observations s1 n"
    and inn: "\<forall>n v col. n \<in> set names \<longrightarrow> vals n = Some v \<longrightarrow> observations s1 n = Some col
            \<longrightarrow> obs' n = Some (col @ [v])
                \<and> srt' n = Some (map (\<lambda>i. (col @ [v]) ! i) order)"
    by blast
  show ?case
  proof (rule exI[of _ obs'], rule exI[of _ srt'], intro conjI allI impI)
    show "append_columns s vals order (name # names)
             = (None, s\<lparr>observations := obs', sorted_observations := srt'\<rparr>)"
      using step run by (simp add: s1_def)
  next
    fix n assume "n \<notin> set (name # names)"
    then show "obs' n = observations s n" using out by (simp add: s1_def)
  next
    fix n assume "n \<notin> set (name # names)"
    then show "srt' n = sorted_observations s n" using out by (simp add: s1_def)
  next
    fix n v' col' assume a: "n \<in> set (name # names)" "vals n = Some v'" "observations s n = Some col'"
    show "obs' n = Some (col' @ [v'])"
    proof (cases "n = name")
      case True
      then show ?thesis using a v col out nin by (simp add: s1_def)
    next
      case False
      then show ?thesis using a inn by (simp add: s1_def)
    qed
  next
    fix n v' col' assume a: "n \<in> set (name # names)" "vals n = Some v'" "observations s n = Some col'"
    show "srt' n = Some (map (\<lambda>i. (col' @ [v']) ! i) order)"
    proof (cases "n = name")
      case True
      then show ?thesis using a v col out nin by (simp add: s1_def)
    next
      case False
      then show ?thesis using a inn by (simp add: s1_def)
    qed
  qed
qed

lemma aligned_column:
  "aligned s n \<Longrightarrow> name \<in> set (column_names s) \<Longrightarrow>
     \<exists>col. observations s name = Some col \<and> length col = n"
  by (auto simp: aligned_def list_all_iff split: option.splits)

lemma set_group_boundary_run:
  assumes "objective_names s = [objective_name s]"
    and "observations s (objective_name s) = Some col" and "col \<noteq> []"
    and "k = (case pfunc of None \<Rightarrow> \<lceil>quantile s * real (length col)\<rceil> | Some k' \<Rightarrow> k')"
  shows "set_group_boundary s pfunc
           = (None, s\<lparr>n_lower := k, percentile := real_of_int k / real (length col)\<rparr>)"
  using assms by (simp add: set_group_boundary_def percentile_func_def split: option.splits)

lemma update_observations_run:
  assumes tpe: "objective_names s = [objective_name s]"
    and dist: "distinct (column_names s)"
    and al: "aligned s n"
    and cov: "covers eval_config (hp_names s)"
    and col: "observations s (objective_name s) = Some col"
    and v: "results (objective_name s) = Some v"
    and srt: "is_argsort (np_append col v) (argsort (np_append col v))"
    and ready: "list_all (dispatch_ready config2type s) (hp_names s)"
    and k: "k = (case pfunc of None \<Rightarrow> \<lceil>quantile s * real (Suc n)\<rceil> | Some k' \<Rightarrow> k')"
  shows "\<exists>s'. update_observations argsort config2type s eval_config results runtime pfunc
               = (None, s')
     \<and> hp_names s' = hp_names s \<and> objective_names s' = objective_names s
     \<and> runtime_name s' = runtime_name s \<and> objective_name s' = objective_name s
     \<and> quantile s' = quantile s
     \<and> order_idx s' = Some (argsort (np_append col v))
     \<and> n_lower s' = k \<and> percentile s' = real_of_int k / real (Suc n)
     \<and> (\<forall>name c x. name \<in> set (hp_names s) \<longrightarrow> observations s name = Some c
            \<longrightarrow> eval_config name = Some x
            \<longrightarrow> observations s' name = Some (c @ [x])
                \<and> sorted_observations s' name
                    = Some (map (\<lambda>i. (c @ [x]) ! i) (argsort (np_append col v))))
     \<and> observations s' (objective_name s) = Some (col @ [v])
     \<and> sorted_observations s' (objective_name s)
         = Some (map (\<lambda>i. (col @ [v]) ! i) (argsort (np_append col v)))
     \<and> (\<forall>c. observations s (runtime_name s) = Some c
            \<longrightarrow> observations s' (runtime_name s) = Some (c @ [runtime]))
     \<and> sorted_observations s' (runtime_name s) = sorted_observations s (runtime_name s)"
proof -
  define order where "order = argsort (np_append col v)"
  have obj_in: "objective_name s \<in> set (column_names s)"
    and rt_in: "runtime_name s \<in> set (column_names s)"
    and hp_in: "\<And>hp. hp \<in> set (hp_names s) \<Longrightarrow> hp \<in> set (column_names s)"
    by (simp_all add: column_names_def tpe)
  have obj_nhp: "objective_name s \<notin> set (hp_names s)"
    and rt_nhp: "runtime_name s \<notin> set (hp_names s)"
    and rt_nobj: "runtime_name s \<noteq> objective_name s"
    and dhp: "distinct (hp_names s)"
    using dist by (auto simp: column_names_def tpe)
  have len: "length col = n" using aligned_column[OF al obj_in] col by simp
  have inr: "list_all (\<lambda>i. i < Suc n) order"
    using is_argsort_in_range[OF srt] by (simp add: order_def np_append_def len)
  \<comment> \<open>the ranking\<close>
  define s1 where "s1 = s\<lparr>order_idx := Some order\<rparr>"
  have calc: "calculate_order argsort s (Some results) = Inr (order, s1)"
    by (simp add: calculate_order_def col v order_def s1_def)
  \<comment> \<open>the objective loop\<close>
  have pre1: "\<forall>name\<in>set [objective_name s]. \<exists>v col. results name = Some v
      \<and> observations s1 name = Some col \<and> list_all (\<lambda>i. i < Suc (length col)) order"
    using col v inr len by (simp add: s1_def)
  from append_columns_run[where s=s1 and names="[objective_name s]" and vals=results
      and order=order, OF _ pre1]
  obtain obs1 srt1 where
    app1: "append_columns s1 results order [objective_name s]
             = (None, s1\<lparr>observations := obs1, sorted_observations := srt1\<rparr>)"
    and out1: "\<And>name. name \<noteq> objective_name s \<Longrightarrow>
            obs1 name = observations s name \<and> srt1 name = sorted_observations s name"
    and in1: "obs1 (objective_name s) = Some (col @ [v])
            \<and> srt1 (objective_name s) = Some (map (\<lambda>i. (col @ [v]) ! i) order)"
    using col v by (auto simp: s1_def)
  define s2 where "s2 = s1\<lparr>observations := obs1, sorted_observations := srt1\<rparr>"
  \<comment> \<open>the dimension loop\<close>
  have pre2: "\<forall>name\<in>set (hp_names s). \<exists>v col. eval_config name = Some v
      \<and> observations s2 name = Some col \<and> list_all (\<lambda>i. i < Suc (length col)) order"
  proof
    fix name assume hp: "name \<in> set (hp_names s)"
    then obtain x where x: "eval_config name = Some x"
      using cov by (auto simp: covers_def list_all_iff)
    from aligned_column[OF al hp_in[OF hp]] obtain c where
      c: "observations s name = Some c" "length c = n" by blast
    have "name \<noteq> objective_name s" using hp obj_nhp by auto
    then have "observations s2 name = Some c" using out1 c by (simp add: s2_def)
    with x c inr show "\<exists>v col. eval_config name = Some v
      \<and> observations s2 name = Some col \<and> list_all (\<lambda>i. i < Suc (length col)) order"
      by simp
  qed
  from append_columns_run[where s=s2 and names="hp_names s" and vals=eval_config
      and order=order, OF dhp pre2]
  obtain obs2 srt2 where
    app2: "append_columns s2 eval_config order (hp_names s)
             = (None, s2\<lparr>observations := obs2, sorted_observations := srt2\<rparr>)"
    and out2: "\<And>name. name \<notin> set (hp_names s) \<Longrightarrow>
            obs2 name = observations s2 name \<and> srt2 name = sorted_observations s2 name"
    and in2: "\<And>name x c. name \<in> set (hp_names s) \<Longrightarrow> eval_config name = Some x \<Longrightarrow>
            observations s2 name = Some c \<Longrightarrow>
            obs2 name = Some (c @ [x]) \<and> srt2 name = Some (map (\<lambda>i. (c @ [x]) ! i) order)"
    by blast
  define s3 where "s3 = s2\<lparr>observations := obs2, sorted_observations := srt2\<rparr>"
  have obj3: "observations s3 (objective_name s) = Some (col @ [v])"
    and sobj3: "sorted_observations s3 (objective_name s)
                  = Some (map (\<lambda>i. (col @ [v]) ! i) order)"
    using out2[OF obj_nhp] in1 by (simp_all add: s3_def s2_def)
  \<comment> \<open>the group boundary\<close>
  have names3: "objective_names s3 = [objective_name s3]" "objective_name s3 = objective_name s"
    "quantile s3 = quantile s" "hp_names s3 = hp_names s" "runtime_name s3 = runtime_name s"
    by (simp_all add: s3_def s2_def s1_def tpe)
  have k3: "k = (case pfunc of None \<Rightarrow> \<lceil>quantile s3 * real (length (col @ [v]))\<rceil>
                 | Some k' \<Rightarrow> k')"
    using k by (simp add: names3 len split: option.splits)
  define s4 where "s4 = s3\<lparr>n_lower := k, percentile := real_of_int k / real (Suc n)\<rparr>"
  have gb: "set_group_boundary s3 pfunc = (None, s4)"
    using set_group_boundary_run[where s=s3 and col="col @ [v]" and k=k and pfunc=pfunc,
        OF names3(1) _ _ k3] obj3
    by (simp add: names3 s4_def len)
  \<comment> \<open>the density models\<close>
  have srt_hp: "\<And>hp. hp \<in> set (hp_names s) \<Longrightarrow> sorted_observations s4 hp \<noteq> None"
  proof -
    fix hp assume hp: "hp \<in> set (hp_names s)"
    from pre2 hp obtain x c where "eval_config hp = Some x" "observations s2 hp = Some c"
      by blast
    from in2[OF hp this] show "sorted_observations s4 hp \<noteq> None"
      by (simp add: s4_def s3_def)
  qed
  have ready4: "list_all (dispatch_ready config2type s4) (hp_names s4)"
    using ready srt_hp
    by (auto simp: list_all_iff dispatch_ready_def s4_def s3_def s2_def s1_def
          split: option.splits)
  from update_parzen_estimators_ready[OF ready4] obtain lo up where
    upe: "update_parzen_estimators config2type s4
           = (None, s4\<lparr>mvpe_lower := Some (MultiVariateParzenEstimator lo),
                       mvpe_upper := Some (MultiVariateParzenEstimator up)\<rparr>)"
    by blast
  define s5 where "s5 = s4\<lparr>mvpe_lower := Some (MultiVariateParzenEstimator lo),
                       mvpe_upper := Some (MultiVariateParzenEstimator up)\<rparr>"
  \<comment> \<open>the runtime\<close>
  from aligned_column[OF al rt_in] obtain rc where rc: "observations s (runtime_name s) = Some rc"
    by blast
  have rt5: "observations s5 (runtime_name s5) = Some rc" "runtime_name s5 = runtime_name s"
    using out2[OF rt_nhp] out1[OF rt_nobj] rc
    by (simp_all add: s5_def s4_def s3_def s2_def s1_def)
  define s6 where "s6 = s5\<lparr>observations := (observations s5)(runtime_name s \<mapsto> np_append rc runtime)\<rparr>"
  have names1: "objective_names s1 = [objective_name s]" by (simp add: s1_def tpe)
  have names2: "hp_names s2 = hp_names s" by (simp add: s2_def s1_def)
  have run: "update_observations argsort config2type s eval_config results runtime pfunc
               = (None, s6)"
    using app1 app2 gb upe rt5
    by (simp add: update_observations_def calc names1 names2 s2_def[symmetric]
          s3_def[symmetric] s5_def[symmetric] s6_def)
  have hp_final: "\<forall>name c x. name \<in> set (hp_names s) \<longrightarrow> observations s name = Some c
            \<longrightarrow> eval_config name = Some x
            \<longrightarrow> observations s6 name = Some (c @ [x])
                \<and> sorted_observations s6 name = Some (map (\<lambda>i. (c @ [x]) ! i) order)"
  proof (intro allI impI)
    fix name c x assume hp: "name \<in> set (hp_names s)" and c: "observations s name = Some c"
      and x: "eval_config name = Some x"
    have ne: "name \<noteq> objective_name s" "name \<noteq> runtime_name s"
      using hp obj_nhp rt_nhp by auto
    have "observations s2 name = Some c" using out1[OF ne(1)] c by (simp add: s2_def)
    from in2[OF hp x this] ne
    show "observations s6 name = Some (c @ [x])
                \<and> sorted_observations s6 name = Some (map (\<lambda>i. (c @ [x]) ! i) order)"
      by (simp add: s6_def s5_def s4_def s3_def)
  qed
  have obj_final: "observations s6 (objective_name s) = Some (col @ [v])"
    "sorted_observations s6 (objective_name s) = Some (map (\<lambda>i. (col @ [v]) ! i) order)"
    using obj3 sobj3 rt_nobj by (simp_all add: s6_def s5_def s4_def)
  have rt_final: "\<forall>c. observations s (runtime_name s) = Some c
            \<longrightarrow> observations s6 (runtime_name s) = Some (c @ [runtime])"
    using rc by (simp add: s6_def np_append_def)
  have srt_rt: "sorted_observations s6 (runtime_name s) = sorted_observations s (runtime_name s)"
    using out2[OF rt_nhp] out1[OF rt_nobj]
    by (simp add: s6_def s5_def s4_def s3_def s2_def s1_def)
  have fields: "hp_names s6 = hp_names s" "objective_names s6 = objective_names s"
    "runtime_name s6 = runtime_name s" "objective_name s6 = objective_name s"
    "quantile s6 = quantile s" "order_idx s6 = Some order" "n_lower s6 = k"
    "percentile s6 = real_of_int k / real (Suc n)"
    by (simp_all add: s6_def s5_def s4_def s3_def s2_def s1_def)
  show ?thesis
    apply (rule exI[of _ s6])
    using run hp_final obj_final rt_final srt_rt fields
    unfolding order_def by blast
qed

lemma example_tied_fields:
  "hp_names example_tied = [''x''] \<and> objective_names example_tied = [''loss'']
   \<and> runtime_name example_tied = ''t'' \<and> quantile example_tied = 1 / 2
   \<and> observations example_tied ''t'' = Some [2, 3]
   \<and> config_space example_tied = example_space
   \<and> is_categoricals example_tied ''x'' = Some False
   \<and> is_ordinals example_tied ''x'' = Some False
   \<and> sorted_observations example_tied ''x'' \<noteq> None"
  by (simp add: example_tied_def run_defs example_defs)

lemma example_tied_ready:
  "list_all (dispatch_ready example_types example_tied) (hp_names example_tied)"
  using example_tied_fields
  by (simp add: dispatch_ready_def example_space_def example_types_def)

lemma example_tied_aligned: "distinct (column_names example_tied) \<and> aligned example_tied 2"
  using example_tied_fields example_tied_cols
  by (simp add: column_names_def aligned_def)

text \<open>
  C2: Take an instance of \<^verbatim>\<open>TPE\<close> whose column names are pairwise distinct and whose
  columns all hold \<open>n\<close> values, and an append that has a value for every dimension and for
  the objective. If \<^verbatim>\<open>np.argsort\<close> meets its contract and the dispatcher can build the
  models, \<^verbatim>\<open>update_observations\<close> raises nothing and appends exactly one value to every
  dimension column, to the objective column and to the runtime column: each of them is
  the old column followed by the value supplied for it, so that every column holds
  \<open>n + 1\<close> values at the end of the call.
\<close>

theorem append_keeps_columns_aligned:
  assumes tpe: "objective_names s = [objective_name s]"
    and dist: "distinct (column_names s)"
    and al: "aligned s n"
    and cov_hp: "covers eval_config (hp_names s)"
    and cov_obj: "covers results (objective_names s)"
    and srt: "\<forall>col v. observations s (objective_name s) = Some col
                \<longrightarrow> results (objective_name s) = Some v
                \<longrightarrow> is_argsort (np_append col v) (argsort (np_append col v))"
    and ready: "list_all (dispatch_ready config2type s) (hp_names s)"
  shows "\<exists>s'. update_observations argsort config2type s eval_config results runtime pfunc
               = (None, s')
     \<and> (\<forall>name\<in>set (hp_names s). \<exists>c x. observations s name = Some c
            \<and> eval_config name = Some x \<and> observations s' name = Some (c @ [x]))
     \<and> (\<forall>name\<in>set (objective_names s). \<exists>c x. observations s name = Some c
            \<and> results name = Some x \<and> observations s' name = Some (c @ [x]))
     \<and> (\<exists>c. observations s (runtime_name s) = Some c
            \<and> observations s' (runtime_name s) = Some (c @ [runtime]))
     \<and> column_names s' = column_names s
     \<and> aligned s' (Suc n)"
proof -
  have obj_in: "objective_name s \<in> set (column_names s)"
    and rt_in: "runtime_name s \<in> set (column_names s)"
    and hp_in: "\<And>hp. hp \<in> set (hp_names s) \<Longrightarrow> hp \<in> set (column_names s)"
    by (simp_all add: column_names_def tpe)
  from aligned_column[OF al obj_in] obtain col where
    col: "observations s (objective_name s) = Some col" and len: "length col = n" by blast
  from cov_obj obtain v where v: "results (objective_name s) = Some v"
    by (auto simp: covers_def tpe)
  from srt col v have sorted: "is_argsort (np_append col v) (argsort (np_append col v))"
    by blast
  from aligned_column[OF al rt_in] obtain rc where
    rc: "observations s (runtime_name s) = Some rc" and rlen: "length rc = n" by blast
  from update_observations_run[where s=s and n=n and eval_config=eval_config
      and results=results and col=col and v=v and config2type=config2type
      and argsort=argsort and pfunc=pfunc and runtime=runtime,
      OF tpe dist al cov_hp col v sorted ready refl]
  obtain s' where run: "update_observations argsort config2type s eval_config results runtime pfunc
               = (None, s')"
    and names: "hp_names s' = hp_names s" "objective_names s' = objective_names s"
      "runtime_name s' = runtime_name s"
    and hps: "\<And>name c x. name \<in> set (hp_names s) \<Longrightarrow> observations s name = Some c
            \<Longrightarrow> eval_config name = Some x \<Longrightarrow> observations s' name = Some (c @ [x])"
    and obj: "observations s' (objective_name s) = Some (col @ [v])"
    and rt: "observations s' (runtime_name s) = Some (rc @ [runtime])"
    using rc by blast
  have hp_all: "\<forall>name\<in>set (hp_names s). \<exists>c x. observations s name = Some c
            \<and> eval_config name = Some x \<and> observations s' name = Some (c @ [x]) \<and> length c = n"
  proof
    fix name assume hp: "name \<in> set (hp_names s)"
    from aligned_column[OF al hp_in[OF hp]] obtain c where
      c: "observations s name = Some c" "length c = n" by blast
    from cov_hp hp obtain x where x: "eval_config name = Some x"
      by (auto simp: covers_def list_all_iff)
    from hps[OF hp c(1) x] c x
    show "\<exists>c x. observations s name = Some c
            \<and> eval_config name = Some x \<and> observations s' name = Some (c @ [x]) \<and> length c = n"
      by blast
  qed
  have cn: "column_names s' = column_names s" by (simp add: column_names_def names)
  have al': "aligned s' (Suc n)"
    unfolding aligned_def cn list_all_iff
  proof
    fix name assume "name \<in> set (column_names s)"
    then consider "name \<in> set (hp_names s)" | "name = objective_name s" | "name = runtime_name s"
      by (auto simp: column_names_def tpe)
    then show "case observations s' name of None \<Rightarrow> False | Some col \<Rightarrow> length col = Suc n"
    proof cases
      case 1
      with hp_all show ?thesis by fastforce
    next
      case 2
      then show ?thesis using obj len by simp
    next
      case 3
      then show ?thesis using rt rlen by simp
    qed
  qed
  show ?thesis
    apply (rule exI[of _ s'])
    using run hp_all col v obj rc rt cn al' by (auto simp: tpe)
qed

text \<open>A third append to the instance that holds two observations.\<close>

theorem append_keeps_columns_aligned_witness:
  "fst (update_observations argsort_stable example_types example_tied
          [''x'' \<mapsto> 3] [''loss'' \<mapsto> 0] 5 None) = None
   \<and> observations (snd (update_observations argsort_stable example_types example_tied
          [''x'' \<mapsto> 3] [''loss'' \<mapsto> 0] 5 None)) ''x'' = Some [1 / 2, 1 / 4, 3]
   \<and> observations (snd (update_observations argsort_stable example_types example_tied
          [''x'' \<mapsto> 3] [''loss'' \<mapsto> 0] 5 None)) ''loss'' = Some [1, 1, 0]
   \<and> observations (snd (update_observations argsort_stable example_types example_tied
          [''x'' \<mapsto> 3] [''loss'' \<mapsto> 0] 5 None)) ''t'' = Some [2, 3, 5]"
proof -
  have tpe: "objective_names example_tied = [objective_name example_tied]"
    using example_tied_fields example_tied_cols by simp
  have cov_hp: "covers [''x'' \<mapsto> 3] (hp_names example_tied)"
    and cov_obj: "covers [''loss'' \<mapsto> 0] (objective_names example_tied)"
    using example_tied_fields by (auto simp: covers_def)
  have srt: "\<forall>col v. observations example_tied (objective_name example_tied) = Some col
                \<longrightarrow> [''loss'' \<mapsto> 0::real] (objective_name example_tied) = Some v
                \<longrightarrow> is_argsort (np_append col v) (argsort_stable (np_append col v))"
    by (simp add: argsort_stable_is_argsort)
  from append_keeps_columns_aligned[where s=example_tied and n=2
      and eval_config="[''x'' \<mapsto> 3]" and results="[''loss'' \<mapsto> 0]"
      and argsort=argsort_stable and config2type=example_types and runtime=5
      and pfunc=None,
      OF tpe conjunct1[OF example_tied_aligned] conjunct2[OF example_tied_aligned]
         cov_hp cov_obj srt example_tied_ready]
  obtain s' where run: "update_observations argsort_stable example_types example_tied
          [''x'' \<mapsto> 3] [''loss'' \<mapsto> 0] 5 None = (None, s')"
    and hp: "\<forall>name\<in>set (hp_names example_tied). \<exists>c x. observations example_tied name = Some c
            \<and> [''x'' \<mapsto> 3] name = Some x \<and> observations s' name = Some (c @ [x])"
    and ob: "\<forall>name\<in>set (objective_names example_tied). \<exists>c x.
            observations example_tied name = Some c
            \<and> [''loss'' \<mapsto> 0] name = Some x \<and> observations s' name = Some (c @ [x])"
    and rt: "\<exists>c. observations example_tied (runtime_name example_tied) = Some c
            \<and> observations s' (runtime_name example_tied) = Some (c @ [5])"
    by blast
  have x: "observations s' ''x'' = Some [1 / 2, 1 / 4, 3]"
    using hp example_tied_fields example_tied_cols by simp
  have l: "observations s' ''loss'' = Some [1, 1, 0]"
    using ob example_tied_fields example_tied_cols by simp
  have t: "observations s' ''t'' = Some [2, 3, 5]"
    using rt example_tied_fields by simp
  show ?thesis using x l t by (simp add: run)
qed

lemma ceiling_quantile_bounds:
  fixes q :: real
  assumes "0 \<le> q" "q \<le> 1"
  shows "0 \<le> \<lceil>q * real m\<rceil> \<and> \<lceil>q * real m\<rceil> \<le> int m"
proof
  have "0 \<le> q * real m" using assms(1) by simp
  then show "0 \<le> \<lceil>q * real m\<rceil>" by (simp add: ceiling_le_iff le_ceiling_iff)
  have "q * real m \<le> 1 * real m" using assms(2) by (intro mult_right_mono) simp_all
  then show "\<lceil>q * real m\<rceil> \<le> int m" by (simp add: ceiling_le_iff)
qed

text \<open>
  C4: With a quantile in \<open>[0, 1]\<close> and the percentile function of \<^verbatim>\<open>TPE\<close>, an append to
  an instance whose columns hold \<open>n\<close> values leaves \<open>n + 1 \<ge> 1\<close> observations and the
  group boundary \<^verbatim>\<open>n_lower = ceil(quantile * n_observations)\<close>, which lies between \<open>0\<close>
  and the number of observations, and \<^verbatim>\<open>percentile = n_lower / n_observations\<close>.
\<close>

theorem group_boundary_after_append:
  assumes q: "0 \<le> quantile s" "quantile s \<le> 1"
    and tpe: "objective_names s = [objective_name s]"
    and dist: "distinct (column_names s)"
    and al: "aligned s n"
    and cov_hp: "covers eval_config (hp_names s)"
    and cov_obj: "covers results (objective_names s)"
    and srt: "\<forall>col v. observations s (objective_name s) = Some col
                \<longrightarrow> results (objective_name s) = Some v
                \<longrightarrow> is_argsort (np_append col v) (argsort (np_append col v))"
    and ready: "list_all (dispatch_ready config2type s) (hp_names s)"
  shows "\<exists>s' col. update_observations argsort config2type s eval_config results runtime None
                   = (None, s')
     \<and> observations s' (objective_name s) = Some col \<and> length col = Suc n
     \<and> n_lower s' = \<lceil>quantile s * real (length col)\<rceil>
     \<and> 0 \<le> n_lower s' \<and> n_lower s' \<le> int (length col)
     \<and> percentile s' = real_of_int (n_lower s') / real (length col)"
proof -
  have obj_in: "objective_name s \<in> set (column_names s)"
    by (simp add: column_names_def tpe)
  from aligned_column[OF al obj_in] obtain col where
    col: "observations s (objective_name s) = Some col" and len: "length col = n" by blast
  from cov_obj obtain v where v: "results (objective_name s) = Some v"
    by (auto simp: covers_def tpe)
  from srt col v have sorted: "is_argsort (np_append col v) (argsort (np_append col v))"
    by blast
  from update_observations_run[where s=s and n=n and eval_config=eval_config
      and results=results and col=col and v=v and config2type=config2type
      and argsort=argsort and pfunc=None and runtime=runtime,
      OF tpe dist al cov_hp col v sorted ready refl]
  obtain s' where run: "update_observations argsort config2type s eval_config results runtime None
               = (None, s')"
    and fields: "objective_name s' = objective_name s" "quantile s' = quantile s"
    and nl: "n_lower s' = \<lceil>quantile s * real (Suc n)\<rceil>"
    and pc: "percentile s' = real_of_int \<lceil>quantile s * real (Suc n)\<rceil> / real (Suc n)"
    and obj: "observations s' (objective_name s) = Some (col @ [v])"
    by auto
  note b = ceiling_quantile_bounds[OF q, of "Suc n"]
  show ?thesis
    apply (rule exI[of _ s'], rule exI[of _ "col @ [v]"])
    using run fields nl pc obj len b by simp
qed

text \<open>Three observations and the quantile \<open>1/2\<close>: \<open>n_lower = 2\<close>, \<open>percentile = 2/3\<close>.\<close>

theorem group_boundary_after_append_witness:
  "fst (update_observations argsort_stable example_types example_tied
          [''x'' \<mapsto> 1] [''loss'' \<mapsto> 2] 7 None) = None
   \<and> n_lower (snd (update_observations argsort_stable example_types example_tied
          [''x'' \<mapsto> 1] [''loss'' \<mapsto> 2] 7 None)) = 2
   \<and> percentile (snd (update_observations argsort_stable example_types example_tied
          [''x'' \<mapsto> 1] [''loss'' \<mapsto> 2] 7 None)) = 2 / 3"
proof -
  have q: "0 \<le> quantile example_tied" "quantile example_tied \<le> 1"
    using example_tied_fields by simp_all
  have tpe: "objective_names example_tied = [objective_name example_tied]"
    using example_tied_fields example_tied_cols by simp
  have cov_hp: "covers [''x'' \<mapsto> 1] (hp_names example_tied)"
    and cov_obj: "covers [''loss'' \<mapsto> 2] (objective_names example_tied)"
    using example_tied_fields by (auto simp: covers_def)
  have srt: "\<forall>col v. observations example_tied (objective_name example_tied) = Some col
                \<longrightarrow> [''loss'' \<mapsto> 2::real] (objective_name example_tied) = Some v
                \<longrightarrow> is_argsort (np_append col v) (argsort_stable (np_append col v))"
    by (simp add: argsort_stable_is_argsort)
  from group_boundary_after_append[where s=example_tied and n=2
      and eval_config="[''x'' \<mapsto> 1]" and results="[''loss'' \<mapsto> 2]"
      and argsort=argsort_stable and config2type=example_types and runtime=7,
      OF q tpe conjunct1[OF example_tied_aligned] conjunct2[OF example_tied_aligned]
         cov_hp cov_obj srt example_tied_ready]
  obtain s' col where run: "update_observations argsort_stable example_types example_tied
          [''x'' \<mapsto> 1] [''loss'' \<mapsto> 2] 7 None = (None, s')"
    and obj: "observations s' (objective_name example_tied) = Some col"
    and len: "length col = Suc 2"
    and nl: "n_lower s' = \<lceil>quantile example_tied * real (length col)\<rceil>"
    and pc: "percentile s' = real_of_int (n_lower s') / real (length col)"
    by blast
  have qs: "quantile example_tied = 1 / 2" using example_tied_fields by simp
  have "\<lceil>(1 / 2) * real (Suc 2)\<rceil> = (2::int)" by (simp add: ceiling_eq_iff)
  then have nl2: "n_lower s' = 2" using nl len qs by simp
  show ?thesis using run nl2 pc len by simp
qed

text \<open>
  C5 fails for the runtime column on every append. \<^verbatim>\<open>update_observations\<close> sets the
  sorted column of each objective and of each dimension (\<open>update_observations_run\<close>), but
  its last statement appends the runtime to the store only. After the first append to the
  fresh instance the ranking is \<open>[0]\<close>, the stored runtime column is \<open>[2]\<close>, and the
  sorted runtime column is still empty, where the store column permuted by the ranking
  would be \<open>[2]\<close>.
\<close>

theorem sorted_runtime_not_refreshed_by_append:
  "fst (update_observations argsort_stable example_types example_tpe
          [''x'' \<mapsto> 1 / 2] [''loss'' \<mapsto> 1] 2 None) = None
   \<and> order_idx (snd (update_observations argsort_stable example_types example_tpe
          [''x'' \<mapsto> 1 / 2] [''loss'' \<mapsto> 1] 2 None)) = Some [0]
   \<and> observations (snd (update_observations argsort_stable example_types example_tpe
          [''x'' \<mapsto> 1 / 2] [''loss'' \<mapsto> 1] 2 None)) ''t'' = Some [2]
   \<and> sorted_observations (snd (update_observations argsort_stable example_types example_tpe
          [''x'' \<mapsto> 1 / 2] [''loss'' \<mapsto> 1] 2 None)) ''t'' = Some []
   \<and> take_idx [2] [0] = Inr [2]"
  by (simp add: run_defs example_defs)

end
